theory Spec2Isabelle
  imports Complex_Main
begin

section \<open>Task configuration (task_config_dao.js)\<close>

subsection \<open>Task kinds\<close>







subsection \<open>Error options\<close>

text \<open>The typedef \<^verbatim>\<open>ErrorOptions\<close>: both fields may be undefined.\<close>

record ErrorOptions =
  retryTimes :: "nat option"
  ignoreError :: "bool option"

subsection \<open>The data access object\<close>

text \<open>
  \<^verbatim>\<open>constructor(dataSource, namespace = 'sentinel') { super('TaskConfig', namespace, dataSource); }\<close>

  The base class \<^verbatim>\<open>DataAccessObject\<close> belongs to the shared library, so its constructor
  is the parameter \<open>super\<close>, which receives the collection name, the namespace and
  the data source. An omitted (undefined) namespace argument is \<open>None\<close>; the default
  parameter value replaces it.
\<close>

definition TaskConfigDao ::
  "(string \<Rightarrow> string \<Rightarrow> 'ds \<Rightarrow> 'dao) \<Rightarrow> 'ds \<Rightarrow> string option \<Rightarrow> 'dao" where
  "TaskConfigDao super dataSource namespace =
     super ''TaskConfig'' (case namespace of None \<Rightarrow> ''sentinel'' | Some n \<Rightarrow> n) dataSource"

section \<open>The Pub/Sub message sending handler\<close>

subsection \<open>Constants\<close>

definition RECORDS_PER_REQUEST :: real where "RECORDS_PER_REQUEST = 1"
definition QUERIES_PER_SECOND :: real where "QUERIES_PER_SECOND = 1"
definition NUMBER_OF_THREADS :: real where "NUMBER_OF_THREADS = 1"
definition RETRY_TIMES :: nat where "RETRY_TIMES = 3"

subsection \<open>Configuration and speed options\<close>

type_synonym attribute_map = "(string \<times> string) list"

record SpeedOptions =
  recordsPerRequest :: real
  numberOfThreads :: real
  qps :: real

text \<open>
  The typedef \<^verbatim>\<open>PubSubMessageConfig\<close>. A field that may be undefined is an option. A
  message given as an object is held as its JSON text. JavaScript objects are open, so a
  config may carry more fields than the typedef names: these are the record's extension.
\<close>

record PubSubMessageConfig =
  topic :: string
  message :: "string option"
  attributes :: "attribute_map option"
  recordsPerRequest :: "real option"
  qps :: "real option"
  numberOfThreads :: "real option"

text \<open>A config that also carries the error options of the task it belongs to.\<close>

record PubSubTaskConfig = PubSubMessageConfig +
  errorOptions :: "ErrorOptions option"

text \<open>
  Modelled from the spec: \<^verbatim>\<open>getProperValue(value, defaultValue, capped)\<close> is a helper of the
  shared library and is not among the source files. It returns the configured value when
  that value is present and valid, and the default otherwise. A value is valid when it is
  a positive number and, if \<open>capped\<close>, does not exceed the default.
\<close>

definition getProperValue :: "real option \<Rightarrow> real \<Rightarrow> bool \<Rightarrow> real" where
  "getProperValue v defaultValue capped =
     (case v of
        None \<Rightarrow> defaultValue
      | Some x \<Rightarrow> if x \<le> 0 \<or> (capped \<and> x > defaultValue) then defaultValue else x)"

text \<open>\<^verbatim>\<open>PubSubMessageSend.getSpeedOptions(config)\<close>, with the helper as a parameter.\<close>

definition getSpeedOptions ::
  "(real option \<Rightarrow> real \<Rightarrow> bool \<Rightarrow> real) \<Rightarrow> 'a PubSubMessageConfig_scheme \<Rightarrow> SpeedOptions" where
  "getSpeedOptions properValue config =
     \<lparr> SpeedOptions.recordsPerRequest = RECORDS_PER_REQUEST,
       SpeedOptions.numberOfThreads =
         properValue (PubSubMessageConfig.numberOfThreads config) NUMBER_OF_THREADS False,
       SpeedOptions.qps = properValue (PubSubMessageConfig.qps config) QUERIES_PER_SECOND False \<rparr>"

subsection \<open>Errors, results and the outside world\<close>

text \<open>
  A thrown JavaScript error with its \<^verbatim>\<open>name\<close> and \<^verbatim>\<open>message\<close>. The handler reads
  only \<^verbatim>\<open>error.message\<close>.
\<close>

record js_error =
  error_name :: string
  error_message :: string

text \<open>
  The error documentation of the task configuration speaks of a \<^verbatim>\<open>RetryableError\<close>: an
  error is classified retryable when it is of that class.
\<close>

definition isRetryable :: "js_error \<Rightarrow> bool" where
  "isRetryable e = (error_name e = ''RetryableError'')"


text \<open>
  \<^verbatim>\<open>BatchResult\<close>: the object starts as \<^verbatim>\<open>{numberOfLines: 1}\<close>; a property that was never
  assigned is \<open>None\<close>.
\<close>

record BatchResult =
  numberOfLines :: nat
  result :: "bool option"
  errors :: "string list option"
  failedLines :: "string list option"

text \<open>
  What the handler does to the outside world, in order: \<open>Wait ms\<close> is a call
  \<^verbatim>\<open>wait(ms)\<close>, \<open>Publish t m a r\<close> a call \<^verbatim>\<open>pubsub.publish(t, m, a)\<close> that ended with
  \<open>r\<close>: \<open>Inl\<close> the error it threw, \<open>Inr\<close> the message id it returned.
\<close>

datatype event =
    Wait nat
  | Publish string string attribute_map "js_error + string"

text \<open>
  The world: \<open>pending w i\<close> is how the \<open>i\<close>-th publish call from now on will end,
  \<open>trace w\<close> the events so far. Log output is left out.
\<close>

record world =
  pending :: "nat \<Rightarrow> js_error + string"
  trace :: "event list"

definition wait :: "nat \<Rightarrow> world \<Rightarrow> world" where
  "wait ms w = w\<lparr>trace := trace w @ [Wait ms]\<rparr>"

definition publish ::
  "string \<Rightarrow> string \<Rightarrow> attribute_map \<Rightarrow> world \<Rightarrow> (js_error + string) \<times> world" where
  "publish t m a w =
     (pending w 0,
      w\<lparr>pending := (\<lambda>i. pending w (Suc i)),
        trace := trace w @ [Publish t m a (pending w 0)]\<rparr>)"

subsection \<open>Sending one message\<close>

text \<open>
  The \<^verbatim>\<open>do ... while (retryTimes <= RETRY_TIMES)\<close> loop, entered with the current values
  of \<^verbatim>\<open>retryTimes\<close> and \<^verbatim>\<open>errors\<close>. It leaves either through the \<^verbatim>\<open>return batchResult\<close>
  inside \<^verbatim>\<open>try\<close>, or by falling through when the condition fails.
\<close>

datatype loop_exit =
    Return BatchResult
  | Fallthrough nat "string list"

function sendLoop ::
  "string \<Rightarrow> string \<Rightarrow> attribute_map \<Rightarrow> BatchResult \<Rightarrow> nat \<Rightarrow> string list \<Rightarrow> world
     \<Rightarrow> loop_exit \<times> world" where
  "sendLoop t m a batchResult rt errs w =
     (let w1 = (if rt > 0 then wait (rt * 1000) w else w) in
      case publish t m a w1 of
        (Inr messageId, w2) \<Rightarrow> (Return (batchResult\<lparr>result := Some True\<rparr>), w2)
      | (Inl err, w2) \<Rightarrow>
          (let errs' = errs @ [error_message err]; rt' = rt + 1 in
           if rt' \<le> RETRY_TIMES then sendLoop t m a batchResult rt' errs' w2
           else (Fallthrough rt' errs', w2)))"
  by pat_completeness auto
termination
  by (relation "measure (\<lambda>(t, m, a, batchResult, rt, errs, w). RETRY_TIMES + 1 - rt)") auto

declare sendLoop.simps [simp del]

text \<open>
  \<^verbatim>\<open>getSendSingleMessageFn(lines, batchId)\<close>. A thrown error is \<open>Inl\<close>, a returned
  \<^verbatim>\<open>BatchResult\<close> is \<open>Inr\<close>. The topic is the one \<^verbatim>\<open>sendDataInternal\<close> obtained before.
  The statements between the arity check and the loop parse the line and fill the
  parameters of \<^verbatim>\<open>config.message\<close> and \<^verbatim>\<open>config.attributes\<close> with library functions
  (\<^verbatim>\<open>JSON.parse\<close>, \<^verbatim>\<open>replaceParameters\<close>): they are the parameter \<open>prepare\<close>, which
  either throws or gives the message and the attributes to publish.
\<close>

definition wrongNumberError :: js_error where
  "wrongNumberError =
     \<lparr>error_name = ''Error'', error_message = ''Wrong number of Pub/Sub messages.''\<rparr>"

definition getSendSingleMessageFn ::
  "(string option \<Rightarrow> attribute_map option \<Rightarrow> string \<Rightarrow> js_error + string \<times> attribute_map)
     \<Rightarrow> string \<Rightarrow> 'a PubSubMessageConfig_scheme \<Rightarrow> string list \<Rightarrow> string \<Rightarrow> world
     \<Rightarrow> (js_error + BatchResult) \<times> world" where
  "getSendSingleMessageFn prepare t config lines batchId w =
     (if length lines \<noteq> 1 then (Inl wrongNumberError, w)
      else
        let batchResult =
              \<lparr>numberOfLines = 1, result = None, errors = None, failedLines = None\<rparr> in
        case prepare (message config) (attributes config) (lines ! 0) of
          Inl err \<Rightarrow> (Inl err, w)
        | Inr (m, a) \<Rightarrow>
            (case sendLoop t m a batchResult 0 [] w of
               (Return br, w') \<Rightarrow> (Inr br, w')
             | (Fallthrough rt errs, w') \<Rightarrow>
                 (Inr (batchResult\<lparr>result := Some False, errors := Some errs,
                                     failedLines := Some lines\<rparr>), w')))"

text \<open>
  One pass through the loop body: the wait, if any, and the publish call. \<open>afterAttempt\<close>
  is the world after that pass.
\<close>

definition afterAttempt :: "string \<Rightarrow> string \<Rightarrow> attribute_map \<Rightarrow> nat \<Rightarrow> world \<Rightarrow> world" where
  "afterAttempt t m a rt w = snd (publish t m a (if rt > 0 then wait (rt * 1000) w else w))"

subsection \<open>Sending all records\<close>









subsection \<open>Reading a trace\<close>

text \<open>The publish attempts of a trace, and the messages of those that failed, in order.\<close>

fun isPublish :: "event \<Rightarrow> bool" where
  "isPublish (Publish t m a r) = True"
| "isPublish (Wait ms) = False"

definition publishAttempts :: "event list \<Rightarrow> nat" where
  "publishAttempts evs = length (filter isPublish evs)"

fun failureMessage :: "event \<Rightarrow> string list" where
  "failureMessage (Publish t m a (Inl err)) = [error_message err]"
| "failureMessage (Publish t m a (Inr messageId)) = []"
| "failureMessage (Wait ms) = []"

definition failureMessages :: "event list \<Rightarrow> string list" where
  "failureMessages evs = concat (map failureMessage evs)"

text \<open>The events a call added to the world it started in.\<close>

definition newEvents :: "world \<Rightarrow> world \<Rightarrow> event list" where
  "newEvents w w' = drop (length (trace w)) (trace w')"

text \<open>
  The schedule in the words of the specification: \<open>n\<close> attempts at one publish, where
  attempt \<open>k\<close> (counted from \<open>0\<close>) is preceded by a wait of \<open>k\<close> seconds, that is
  \<open>k * 1000\<close> milliseconds, unless it is the first.
\<close>

definition attemptEvents ::
  "string \<Rightarrow> string \<Rightarrow> attribute_map \<Rightarrow> (nat \<Rightarrow> js_error + string) \<Rightarrow> nat \<Rightarrow> event list" where
  "attemptEvents t m a outcome k =
     (if k = 0 then [] else [Wait (k * 1000)]) @ [Publish t m a (outcome k)]"

definition backoffSchedule ::
  "string \<Rightarrow> string \<Rightarrow> attribute_map \<Rightarrow> (nat \<Rightarrow> js_error + string) \<Rightarrow> nat \<Rightarrow> event list" where
  "backoffSchedule t m a outcome n = concat (map (attemptEvents t m a outcome) [0..<n])"

subsection \<open>Concrete inputs\<close>

text \<open>
  Two errors a publish call may throw: one of the retryable class and one that is not.
\<close>

definition transientError :: js_error where
  "transientError = \<lparr>error_name = ''RetryableError'', error_message = ''deadline exceeded''\<rparr>"

definition permanentError :: js_error where
  "permanentError = \<lparr>error_name = ''Error'', error_message = ''permission denied''\<rparr>"

text \<open>
  Worlds with nothing done yet: one where every publish fails with the retryable error,
  one where every publish fails with the other error, and one where the first two
  publish calls fail and the third succeeds.
\<close>

definition unavailableWorld :: world where
  "unavailableWorld = \<lparr>pending = (\<lambda>i. Inl transientError), trace = []\<rparr>"

definition rejectingWorld :: world where
  "rejectingWorld = \<lparr>pending = (\<lambda>i. Inl permanentError), trace = []\<rparr>"

definition recoveringWorld :: world where
  "recoveringWorld =
     \<lparr>pending = (\<lambda>i. if i < 2 then Inl transientError else Inr ''id-3''), trace = []\<rparr>"

text \<open>A config of the handler that carries a retry budget in its error options.\<close>

definition configWithRetryTimes :: "nat \<Rightarrow> PubSubTaskConfig" where
  "configWithRetryTimes n =
     \<lparr>topic = ''orders'', message = Some ''hello'', attributes = None,
      recordsPerRequest = None, qps = None, numberOfThreads = None,
      errorOptions = Some \<lparr>retryTimes = Some n, ignoreError = None\<rparr>\<rparr>"

text \<open>
  A stand-in for the preparation step on a message without parameters: the message and
  the attributes of the config are published as they are.
\<close>

definition plainPrepare ::
  "string option \<Rightarrow> attribute_map option \<Rightarrow> string \<Rightarrow> js_error + string \<times> attribute_map" where
  "plainPrepare msg attrs line =
     Inr (case msg of None \<Rightarrow> [] | Some s \<Rightarrow> s, case attrs of None \<Rightarrow> [] | Some a \<Rightarrow> a)"





text \<open>
  A stand-in for the constructor of the base class: it keeps its three arguments.
\<close>

record 'ds DataAccessObject =
  kind :: string
  namespace :: string
  dataSource :: 'ds

definition newDataAccessObject :: "string \<Rightarrow> string \<Rightarrow> 'ds \<Rightarrow> 'ds DataAccessObject" where
  "newDataAccessObject k n d = \<lparr>kind = k, namespace = n, dataSource = d\<rparr>"

section \<open>Properties of the model\<close>

subsection \<open>The task kinds\<close>


subsection \<open>The sending loop\<close>

text \<open>One pass of the loop, by the outcome of its publish call.\<close>

lemma pending_afterAttempt: "pending (afterAttempt t m a rt w) = (\<lambda>i. pending w (Suc i))"
  by (simp add: afterAttempt_def publish_def wait_def)

lemma trace_afterAttempt:
  "trace (afterAttempt t m a rt w) = trace w @ attemptEvents t m a (\<lambda>j. pending w 0) rt"
  by (simp add: afterAttempt_def publish_def wait_def attemptEvents_def)

lemma sendLoop_published:
  "pending w 0 = Inr mid \<Longrightarrow>
   sendLoop t m a br rt errs w = (Return (br\<lparr>result := Some True\<rparr>), afterAttempt t m a rt w)"
  by (subst sendLoop.simps) (simp add: afterAttempt_def publish_def wait_def)

lemma sendLoop_retry:
  "pending w 0 = Inl e \<Longrightarrow> rt < RETRY_TIMES \<Longrightarrow>
   sendLoop t m a br rt errs w =
     sendLoop t m a br (Suc rt) (errs @ [error_message e]) (afterAttempt t m a rt w)"
  by (subst sendLoop.simps) (simp add: afterAttempt_def publish_def wait_def)

lemma sendLoop_give_up:
  "pending w 0 = Inl e \<Longrightarrow> \<not> rt < RETRY_TIMES \<Longrightarrow>
   sendLoop t m a br rt errs w =
     (Fallthrough (Suc rt) (errs @ [error_message e]), afterAttempt t m a rt w)"
  by (subst sendLoop.simps) (simp add: afterAttempt_def publish_def wait_def)

lemma sendLoop_succeeds:
  "rt + k \<le> RETRY_TIMES \<Longrightarrow> \<forall>i<k. isl (pending w i) \<Longrightarrow> pending w k = Inr mid \<Longrightarrow>
   fst (sendLoop t m a br rt errs w) = Return (br\<lparr>result := Some True\<rparr>)"
proof (induction k arbitrary: rt errs w)
  case 0
  then show ?case by (simp add: sendLoop_published)
next
  case (Suc k)
  from Suc.prems(2) have "isl (pending w 0)" by simp
  then obtain e where e: "pending w 0 = Inl e" by (auto simp: isl_def)
  from Suc.prems(1) have lt: "rt < RETRY_TIMES" by simp
  have "fst (sendLoop t m a br (Suc rt) (errs @ [error_message e]) (afterAttempt t m a rt w))
          = Return (br\<lparr>result := Some True\<rparr>)"
    using Suc.prems by (intro Suc.IH) (simp_all add: pending_afterAttempt)
  then show ?case by (simp add: sendLoop_retry [OF e lt])
qed

lemma trace_one_attempt:
  "trace (afterAttempt t m a rt w) =
     trace w @ concat (map (attemptEvents t m a (\<lambda>j. pending w (j - rt))) [rt..<rt + 1])"
  by (simp add: trace_afterAttempt attemptEvents_def)

lemma sendLoop_trace:
  "rt \<le> RETRY_TIMES \<Longrightarrow>
   \<exists>n\<ge>1. rt + n \<le> RETRY_TIMES + 1 \<and>
     trace (snd (sendLoop t m a br rt errs w)) =
       trace w @ concat (map (attemptEvents t m a (\<lambda>j. pending w (j - rt))) [rt..<rt + n])"
proof (induction "RETRY_TIMES - rt" arbitrary: rt errs w)
  case 0
  then have rt: "\<not> rt < RETRY_TIMES" by simp
  have "trace (snd (sendLoop t m a br rt errs w)) = trace (afterAttempt t m a rt w)"
    by (cases "pending w 0") (simp_all add: sendLoop_give_up [OF _ rt] sendLoop_published)
  with "0.prems" show ?case
    by (intro exI [of _ 1]) (simp only: trace_one_attempt, simp)
next
  case (Suc d)
  then have lt: "rt < RETRY_TIMES" by simp
  show ?case
  proof (cases "pending w 0")
    case (Inr mid)
    have "trace (snd (sendLoop t m a br rt errs w)) = trace (afterAttempt t m a rt w)"
      by (simp add: sendLoop_published [OF Inr])
    with lt show ?thesis
      by (intro exI [of _ 1]) (simp only: trace_one_attempt, simp)
  next
    case (Inl e)
    let ?w = "afterAttempt t m a rt w"
    have "d = RETRY_TIMES - Suc rt" "Suc rt \<le> RETRY_TIMES" using Suc.hyps(2) by simp_all
    from Suc.hyps(1) [OF this, of "errs @ [error_message e]" ?w]
    obtain n where n: "n \<ge> 1" "Suc rt + n \<le> RETRY_TIMES + 1"
      "trace (snd (sendLoop t m a br (Suc rt) (errs @ [error_message e]) ?w)) =
         trace ?w @ concat (map (attemptEvents t m a (\<lambda>j. pending ?w (j - Suc rt))) [Suc rt..<Suc rt + n])"
      by blast
    have same: "map (attemptEvents t m a (\<lambda>j. pending ?w (j - Suc rt))) [Suc rt..<Suc rt + n]
              = map (attemptEvents t m a (\<lambda>j. pending w (j - rt))) [Suc rt..<Suc rt + n]"
      by (rule map_cong) (auto simp: pending_afterAttempt attemptEvents_def Suc_diff_Suc)
    have first: "attemptEvents t m a (\<lambda>j. pending w 0) rt = attemptEvents t m a (\<lambda>j. pending w (j - rt)) rt"
      by (simp add: attemptEvents_def)
    let ?f = "attemptEvents t m a (\<lambda>j. pending w (j - rt))"
    have split: "[rt..<rt + Suc n] = rt # [Suc rt..<Suc rt + n]"
      by (simp add: upt_conv_Cons del: upt_Suc)
    have "trace (snd (sendLoop t m a br rt errs w)) =
            trace ?w @ concat (map ?f [Suc rt..<Suc rt + n])"
      by (simp only: sendLoop_retry [OF Inl lt] n(3) same)
    also have "\<dots> = trace w @ ?f rt @ concat (map ?f [Suc rt..<Suc rt + n])"
      by (simp only: trace_afterAttempt first append_assoc)
    also have "\<dots> = trace w @ concat (map ?f [rt..<rt + Suc n])"
      by (simp only: split list.map concat.simps)
    finally have "trace (snd (sendLoop t m a br rt errs w)) =
       trace w @ concat (map ?f [rt..<rt + Suc n])" .
    with n show ?thesis by (intro exI [of _ "Suc n"]) simp
  qed
qed

lemma publishAttempts_append:
  "publishAttempts (xs @ ys) = publishAttempts xs + publishAttempts ys"
  by (simp add: publishAttempts_def)

lemma failureMessages_append:
  "failureMessages (xs @ ys) = failureMessages xs @ failureMessages ys"
  by (simp add: failureMessages_def)

lemma publishAttempts_attemptEvents: "publishAttempts (attemptEvents t m a f k) = 1"
  by (simp add: publishAttempts_def attemptEvents_def)

lemma publishAttempts_backoffSchedule: "publishAttempts (backoffSchedule t m a f n) = n"
  by (induction n) (simp_all add: backoffSchedule_def publishAttempts_append publishAttempts_attemptEvents, simp add: publishAttempts_def)

lemma failureMessages_failed_attempt:
  "pending w 0 = Inl e \<Longrightarrow>
   failureMessages (attemptEvents t m a (\<lambda>j. pending w 0) rt) = [error_message e]"
  by (simp add: failureMessages_def attemptEvents_def)

lemma sendLoop_return:
  "fst (sendLoop t m a br rt errs w) = Return b \<Longrightarrow> b = br\<lparr>result := Some True\<rparr>"
proof (induction "RETRY_TIMES - rt" arbitrary: rt errs w)
  case 0
  then have rt: "\<not> rt < RETRY_TIMES" by simp
  from "0.prems" show ?case
    by (cases "pending w 0") (simp_all add: sendLoop_give_up [OF _ rt] sendLoop_published)
next
  case (Suc d)
  then have lt: "rt < RETRY_TIMES" by simp
  show ?case
  proof (cases "pending w 0")
    case (Inr mid)
    with Suc.prems show ?thesis by (simp add: sendLoop_published)
  next
    case (Inl e)
    have "d = RETRY_TIMES - Suc rt" using Suc.hyps(2) by simp
    from Suc.hyps(1) [OF this] Suc.prems show ?thesis
      by (simp add: sendLoop_retry [OF Inl lt])
  qed
qed

lemma sendLoop_fallthrough:
  "sendLoop t m a br rt errs w = (Fallthrough r es, w') \<Longrightarrow>
   \<exists>evs. trace w' = trace w @ evs \<and> es = errs @ failureMessages evs \<and>
         publishAttempts evs = length (failureMessages evs)"
proof (induction "RETRY_TIMES - rt" arbitrary: rt errs w)
  case 0
  then have rt: "\<not> rt < RETRY_TIMES" by simp
  show ?case
  proof (cases "pending w 0")
    case (Inr mid)
    with "0.prems" show ?thesis by (simp add: sendLoop_published)
  next
    case (Inl e)
    let ?evs = "attemptEvents t m a (\<lambda>j. pending w 0) rt"
    from "0.prems" have "w' = afterAttempt t m a rt w" "es = errs @ [error_message e]"
      by (simp_all add: sendLoop_give_up [OF Inl rt])
    then have "trace w' = trace w @ ?evs \<and> es = errs @ failureMessages ?evs \<and>
         publishAttempts ?evs = length (failureMessages ?evs)"
      by (simp add: trace_afterAttempt failureMessages_failed_attempt [OF Inl]
            publishAttempts_attemptEvents)
    then show ?thesis by blast
  qed
next
  case (Suc d)
  then have lt: "rt < RETRY_TIMES" by simp
  show ?case
  proof (cases "pending w 0")
    case (Inr mid)
    with Suc.prems show ?thesis by (simp add: sendLoop_published)
  next
    case (Inl e)
    let ?evs = "attemptEvents t m a (\<lambda>j. pending w 0) rt"
    let ?w = "afterAttempt t m a rt w"
    have d: "d = RETRY_TIMES - Suc rt" using Suc.hyps(2) by simp
    have "sendLoop t m a br (Suc rt) (errs @ [error_message e]) ?w = (Fallthrough r es, w')"
      using Suc.prems by (simp add: sendLoop_retry [OF Inl lt])
    from Suc.hyps(1) [OF d this]
    obtain evs where evs: "trace w' = trace ?w @ evs"
      "es = (errs @ [error_message e]) @ failureMessages evs"
      "publishAttempts evs = length (failureMessages evs)"
      by blast
    have "trace w' = trace w @ (?evs @ evs) \<and> es = errs @ failureMessages (?evs @ evs) \<and>
         publishAttempts (?evs @ evs) = length (failureMessages (?evs @ evs))"
      using evs
      by (simp add: trace_afterAttempt failureMessages_append publishAttempts_append
            failureMessages_failed_attempt [OF Inl] publishAttempts_attemptEvents)
    then show ?thesis by blast
  qed
qed

lemma sendLoop_all_fail:
  "rt \<le> RETRY_TIMES \<Longrightarrow> \<forall>i\<le>RETRY_TIMES - rt. isl (pending w i) \<Longrightarrow>
   fst (sendLoop t m a br rt errs w) =
     Fallthrough (RETRY_TIMES + 1)
       (errs @ map (\<lambda>i. error_message (projl (pending w i))) [0..<RETRY_TIMES + 1 - rt])"
proof (induction "RETRY_TIMES - rt" arbitrary: rt errs w)
  case 0
  then have rt: "\<not> rt < RETRY_TIMES" and eq: "RETRY_TIMES + 1 - rt = 1" "Suc rt = RETRY_TIMES + 1"
    by simp_all
  from "0.prems"(2) have "isl (pending w 0)" by simp
  then obtain e where e: "pending w 0 = Inl e" by (auto simp: isl_def)
  show ?case
    by (simp only: sendLoop_give_up [OF e rt] eq) (simp add: e)
next
  case (Suc d)
  then have lt: "rt < RETRY_TIMES" by simp
  from Suc.prems(2) have "isl (pending w 0)" by simp
  then obtain e where e: "pending w 0 = Inl e" by (auto simp: isl_def)
  let ?w = "afterAttempt t m a rt w"
  let ?g = "\<lambda>i. error_message (projl (pending w i))"
  have d: "d = RETRY_TIMES - Suc rt" and le: "Suc rt \<le> RETRY_TIMES" using Suc.hyps(2) by simp_all
  have fails: "\<forall>i\<le>RETRY_TIMES - Suc rt. isl (pending ?w i)"
    using Suc.prems(2) lt by (auto simp: pending_afterAttempt)
  have n: "RETRY_TIMES + 1 - rt = Suc (RETRY_TIMES + 1 - Suc rt)" using lt by simp
  have shift: "map (\<lambda>i. error_message (projl (pending ?w i))) [0..<RETRY_TIMES + 1 - Suc rt]
             = map ?g [Suc 0..<Suc (RETRY_TIMES + 1 - Suc rt)]"
    by (simp only: pending_afterAttempt map_Suc_upt [symmetric] map_map comp_def)
  have split: "map ?g [0..<RETRY_TIMES + 1 - rt] =
          error_message e # map ?g [Suc 0..<Suc (RETRY_TIMES + 1 - Suc rt)]"
    by (simp only: n upt_conv_Cons [OF zero_less_Suc] list.map e sum.sel)
  have "fst (sendLoop t m a br (Suc rt) (errs @ [error_message e]) ?w) =
     Fallthrough (RETRY_TIMES + 1)
       ((errs @ [error_message e]) @
        map (\<lambda>i. error_message (projl (pending ?w i))) [0..<RETRY_TIMES + 1 - Suc rt])"
    by (rule Suc.hyps(1) [OF d le fails])
  then show ?case
    by (simp only: sendLoop_retry [OF e lt] shift split append_assoc append_Cons append_Nil)
qed

lemma sendLoop_reissues:
  "rt + k \<le> RETRY_TIMES \<Longrightarrow> \<forall>i<k. isl (pending w i) \<Longrightarrow>
   publishAttempts (trace w) + k + 1
     \<le> publishAttempts (trace (snd (sendLoop t m a br rt errs w)))"
proof (induction k arbitrary: rt errs w)
  case 0
  then have "rt \<le> RETRY_TIMES" by simp
  from sendLoop_trace [OF this, of t m a br errs w]
  obtain n where n: "n \<ge> 1"
    "trace (snd (sendLoop t m a br rt errs w)) =
       trace w @ concat (map (attemptEvents t m a (\<lambda>j. pending w (j - rt))) [rt..<rt + n])"
    by blast
  have "publishAttempts (concat (map (attemptEvents t m a f) xs)) = length xs" for f xs
    by (induction xs) (simp_all add: publishAttempts_append publishAttempts_attemptEvents, simp add: publishAttempts_def)
  with n show ?case by (simp add: publishAttempts_append)
next
  case (Suc k)
  from Suc.prems(2) have "isl (pending w 0)" by simp
  then obtain e where e: "pending w 0 = Inl e" by (auto simp: isl_def)
  from Suc.prems(1) have lt: "rt < RETRY_TIMES" by simp
  let ?w = "afterAttempt t m a rt w"
  have "publishAttempts (trace ?w) + k + 1
     \<le> publishAttempts (trace (snd (sendLoop t m a br (Suc rt) (errs @ [error_message e]) ?w)))"
    using Suc.prems by (intro Suc.IH) (simp_all add: pending_afterAttempt)
  then show ?case
    by (simp add: sendLoop_retry [OF e lt] trace_afterAttempt publishAttempts_append
          publishAttempts_attemptEvents)
qed

subsection \<open>One call of the send function\<close>

lemma newEvents_extend: "trace w' = trace w @ evs \<Longrightarrow> newEvents w w' = evs"
  by (simp add: newEvents_def)

lemma run_prepared:
  "length lines = 1 \<Longrightarrow> prepare (message config) (attributes config) (lines ! 0) = Inr (m, a) \<Longrightarrow>
   getSendSingleMessageFn prepare t config lines batchId w =
     (case sendLoop t m a \<lparr>numberOfLines = 1, result = None, errors = None, failedLines = None\<rparr> 0 [] w of
        (Return br, w') \<Rightarrow> (Inr br, w')
      | (Fallthrough rt errs, w') \<Rightarrow>
          (Inr \<lparr>numberOfLines = 1, result = Some False, errors = Some errs,
                failedLines = Some lines\<rparr>, w'))"
  by (simp add: getSendSingleMessageFn_def Let_def split: prod.splits loop_exit.splits)

lemma snd_run_prepared:
  "length lines = 1 \<Longrightarrow> prepare (message config) (attributes config) (lines ! 0) = Inr (m, a) \<Longrightarrow>
   snd (getSendSingleMessageFn prepare t config lines batchId w) =
   snd (sendLoop t m a \<lparr>numberOfLines = 1, result = None, errors = None, failedLines = None\<rparr> 0 [] w)"
  by (simp add: run_prepared split: prod.splits loop_exit.splits)

lemma run_schedule:
  assumes "length lines = 1"
    and "prepare (message config) (attributes config) (lines ! 0) = Inr (m, a)"
  shows "\<exists>n\<ge>1. n \<le> RETRY_TIMES + 1 \<and>
     newEvents w (snd (getSendSingleMessageFn prepare t config lines batchId w)) =
       backoffSchedule t m a (pending w) n"
proof -
  let ?br = "\<lparr>numberOfLines = 1, result = None, errors = None, failedLines = None\<rparr>"
  obtain n where n: "n \<ge> 1" "0 + n \<le> RETRY_TIMES + 1"
    "trace (snd (sendLoop t m a ?br 0 [] w)) =
       trace w @ concat (map (attemptEvents t m a (\<lambda>j. pending w (j - 0))) [0..<0 + n])"
    using sendLoop_trace [of 0 t m a ?br "[]" w] by blast
  then have "newEvents w (snd (sendLoop t m a ?br 0 [] w)) = backoffSchedule t m a (pending w) n"
    by (simp add: newEvents_def backoffSchedule_def)
  with n(1,2) show ?thesis
    using assms by (intro exI [of _ n]) (simp add: snd_run_prepared)
qed

lemma run_all_fail:
  assumes "length lines = 1"
    and "prepare (message config) (attributes config) (lines ! 0) = Inr (m, a)"
    and "\<forall>i\<le>RETRY_TIMES. isl (pending w i)"
  shows "fst (getSendSingleMessageFn prepare t config lines batchId w) =
           Inr \<lparr>numberOfLines = 1, result = Some False,
                errors = Some (map (\<lambda>i. error_message (projl (pending w i))) [0..<RETRY_TIMES + 1]),
                failedLines = Some lines\<rparr>"
    and "publishAttempts (newEvents w (snd (getSendSingleMessageFn prepare t config lines batchId w)))
           = RETRY_TIMES + 1"
proof -
  let ?br = "\<lparr>numberOfLines = 1, result = None, errors = None, failedLines = None\<rparr>"
  let ?es = "map (\<lambda>i. error_message (projl (pending w i))) [0..<RETRY_TIMES + 1]"
  obtain ex w' where run: "sendLoop t m a ?br 0 [] w = (ex, w')" by (cases "sendLoop t m a ?br 0 [] w")
  have "fst (sendLoop t m a ?br 0 [] w) = Fallthrough (RETRY_TIMES + 1) ([] @ ?es)"
    using sendLoop_all_fail [of 0 w t m a ?br "[]"] assms(3) by simp
  with run have ex: "ex = Fallthrough (RETRY_TIMES + 1) ?es" by simp
  from sendLoop_fallthrough [OF run [unfolded ex]]
  obtain evs where evs: "trace w' = trace w @ evs" "?es = [] @ failureMessages evs"
    "publishAttempts evs = length (failureMessages evs)" by blast
  from evs(2,3) have "publishAttempts evs = length ?es" by simp
  then have count: "publishAttempts (newEvents w w') = RETRY_TIMES + 1"
    by (simp add: newEvents_extend [OF evs(1)])
  show "fst (getSendSingleMessageFn prepare t config lines batchId w) =
           Inr \<lparr>numberOfLines = 1, result = Some False, errors = Some ?es, failedLines = Some lines\<rparr>"
    using assms(1,2) by (simp only: run_prepared run ex prod.case loop_exit.case fst_conv)
  show "publishAttempts (newEvents w (snd (getSendSingleMessageFn prepare t config lines batchId w)))
           = RETRY_TIMES + 1"
    using count assms(1,2) by (simp only: snd_run_prepared run snd_conv)
qed

subsection \<open>Sending all records\<close>







section \<open>The claims\<close>

text \<open>
  Claim C1 says that a batch whose publish fails on every attempt gets exactly
  \<open>retryTimes + 1\<close> publish attempts, \<open>retryTimes\<close> being the retry budget of the config.
  With \<open>retryTimes = 1\<close> in the config such a batch is published four times, not twice.
\<close>

theorem configured_budget_not_applied_counterexample:
  "errorOptions (configWithRetryTimes 1) = Some \<lparr>retryTimes = Some 1, ignoreError = None\<rparr> \<and>
   isl (pending unavailableWorld 0) \<and> isl (pending unavailableWorld 100) \<and>
   publishAttempts (newEvents unavailableWorld
      (snd (getSendSingleMessageFn plainPrepare ''orders'' (configWithRetryTimes 1) [''{}''] ''0''
              unavailableWorld))) = 4 \<and>
   publishAttempts (newEvents unavailableWorld
      (snd (getSendSingleMessageFn plainPrepare ''orders'' (configWithRetryTimes 1) [''{}''] ''0''
              unavailableWorld))) \<noteq> 1 + 1"
proof -
  have h1: "length [''{}''] = 1" by simp
  have h2: "plainPrepare (message (configWithRetryTimes 1)) (attributes (configWithRetryTimes 1))
              ([''{}''] ! 0) = Inr (''hello'', [])"
    by (simp add: plainPrepare_def configWithRetryTimes_def)
  have h3: "\<forall>i\<le>RETRY_TIMES. isl (pending unavailableWorld i)"
    by (simp add: unavailableWorld_def)
  have "publishAttempts (newEvents unavailableWorld
      (snd (getSendSingleMessageFn plainPrepare ''orders'' (configWithRetryTimes 1) [''{}''] ''0''
              unavailableWorld))) = RETRY_TIMES + 1"
    using h1 h2 h3 by (simp only: run_all_fail(2))
  then show ?thesis
    by (simp add: RETRY_TIMES_def configWithRetryTimes_def unavailableWorld_def)
qed

text \<open>
  Claim C1, amended. A batch of one record whose publish fails on every attempt gets
  exactly \<open>RETRY_TIMES + 1\<close> publish attempts, where \<open>RETRY_TIMES = 3\<close> is the constant of
  the handler and not the \<open>retryTimes\<close> of the config; the send function then returns a
  batch result with \<open>result = false\<close>, with the failure message of every attempt in
  \<open>errors\<close>, and with the records of the batch in \<open>failedLines\<close>.
\<close>

theorem permanently_failing_batch:
  assumes "length lines = 1"
    and "prepare (message config) (attributes config) (lines ! 0) = Inr (m, a)"
    and "\<forall>i\<le>RETRY_TIMES. isl (pending w i)"
  shows "publishAttempts (newEvents w (snd (getSendSingleMessageFn prepare t config lines batchId w)))
           = RETRY_TIMES + 1 \<and> RETRY_TIMES = 3 \<and>
         fst (getSendSingleMessageFn prepare t config lines batchId w) =
           Inr \<lparr>numberOfLines = 1, result = Some False,
                errors = Some (map (\<lambda>i. error_message (projl (pending w i))) [0..<RETRY_TIMES + 1]),
                failedLines = Some lines\<rparr>"
  using assms by (simp add: run_all_fail RETRY_TIMES_def)

theorem permanently_failing_batch_witness:
  "length [''{}''] = 1 \<and>
   plainPrepare (message (configWithRetryTimes 1)) (attributes (configWithRetryTimes 1)) ([''{}''] ! 0)
     = Inr (''hello'', []) \<and>
   isl (pending unavailableWorld 0) \<and> isl (pending unavailableWorld RETRY_TIMES) \<and>
   publishAttempts (newEvents unavailableWorld
      (snd (getSendSingleMessageFn plainPrepare ''orders'' (configWithRetryTimes 1) [''{}''] ''0''
              unavailableWorld))) = 4 \<and>
   fst (getSendSingleMessageFn plainPrepare ''orders'' (configWithRetryTimes 1) [''{}''] ''0''
          unavailableWorld) =
     Inr \<lparr>numberOfLines = 1, result = Some False,
          errors = Some [''deadline exceeded'', ''deadline exceeded'', ''deadline exceeded'',
                         ''deadline exceeded''],
          failedLines = Some [''{}'']\<rparr>"
proof -
  have h1: "length [''{}''] = 1" by simp
  have h2: "plainPrepare (message (configWithRetryTimes 1)) (attributes (configWithRetryTimes 1))
              ([''{}''] ! 0) = Inr (''hello'', [])"
    by (simp add: plainPrepare_def configWithRetryTimes_def)
  have h3: "\<forall>i\<le>RETRY_TIMES. isl (pending unavailableWorld i)"
    by (simp add: unavailableWorld_def)
  have msgs: "map (\<lambda>i. error_message (projl (pending unavailableWorld i))) [0..<RETRY_TIMES + 1]
      = [''deadline exceeded'', ''deadline exceeded'', ''deadline exceeded'', ''deadline exceeded'']"
    by (simp add: unavailableWorld_def transientError_def RETRY_TIMES_def upt_rec)
  show ?thesis
    using permanently_failing_batch [where prepare = plainPrepare
        and config = "configWithRetryTimes 1" and lines = "[''{}'']" and m = "''hello''"
        and a = "[]" and w = unavailableWorld and t = "''orders''" and batchId = "''0''",
        OF h1 h2 h3] h1 h2 h3
    by (simp only: msgs) (simp add: RETRY_TIMES_def unavailableWorld_def)
qed

text \<open>
  Claim C2 says that the retry budget is the \<open>retryTimes\<close> of the config's error options,
  so that two configs differing only there give different numbers of publish attempts
  for a permanently failing batch. With \<open>retryTimes\<close> \<open>0\<close> and \<open>5\<close> the same batch is
  published four times under both.
\<close>

theorem configured_retry_times_ignored_counterexample:
  "errorOptions (configWithRetryTimes 0) = Some \<lparr>retryTimes = Some 0, ignoreError = None\<rparr> \<and>
   errorOptions (configWithRetryTimes 5) = Some \<lparr>retryTimes = Some 5, ignoreError = None\<rparr> \<and>
   publishAttempts (newEvents unavailableWorld
      (snd (getSendSingleMessageFn plainPrepare ''orders'' (configWithRetryTimes 0) [''{}''] ''0''
              unavailableWorld))) = 4 \<and>
   publishAttempts (newEvents unavailableWorld
      (snd (getSendSingleMessageFn plainPrepare ''orders'' (configWithRetryTimes 5) [''{}''] ''0''
              unavailableWorld))) = 4"
proof -
  have h1: "length [''{}''] = 1" by simp
  have h2: "plainPrepare (message (configWithRetryTimes n)) (attributes (configWithRetryTimes n))
              ([''{}''] ! 0) = Inr (''hello'', [])" for n
    by (simp add: plainPrepare_def configWithRetryTimes_def)
  have h3: "\<forall>i\<le>RETRY_TIMES. isl (pending unavailableWorld i)"
    by (simp add: unavailableWorld_def)
  have "publishAttempts (newEvents unavailableWorld
      (snd (getSendSingleMessageFn plainPrepare ''orders'' (configWithRetryTimes n) [''{}''] ''0''
              unavailableWorld))) = RETRY_TIMES + 1" for n
    using h1 h2 [of n] h3 by (simp only: run_all_fail(2))
  then show ?thesis
    by (simp add: RETRY_TIMES_def configWithRetryTimes_def)
qed

text \<open>
  Claim C2, amended. The retry budget applied to a failing batch is the constant
  \<open>RETRY_TIMES = 3\<close> of the handler, whatever error options the config carries: a batch
  whose publish fails on every attempt gets \<open>RETRY_TIMES + 1\<close> publish attempts under
  every config, so two configs differing only in \<open>retryTimes\<close> give the same number.
\<close>

theorem retry_budget_is_constant:
  assumes "length lines = 1"
    and "prepare (message config) (attributes config) (lines ! 0) = Inr (m, a)"
    and "\<forall>i\<le>RETRY_TIMES. isl (pending w i)"
  shows "publishAttempts (newEvents w
           (snd (getSendSingleMessageFn prepare t (config\<lparr>errorOptions := eo\<rparr>) lines batchId w)))
         = RETRY_TIMES + 1 \<and> RETRY_TIMES = 3"
proof -
  have "prepare (message (config\<lparr>errorOptions := eo\<rparr>)) (attributes (config\<lparr>errorOptions := eo\<rparr>))
          (lines ! 0) = Inr (m, a)"
    using assms(2) by simp
  with assms(1,3) show ?thesis by (simp add: run_all_fail(2) RETRY_TIMES_def)
qed

theorem retry_budget_is_constant_witness:
  "publishAttempts (newEvents unavailableWorld
      (snd (getSendSingleMessageFn plainPrepare ''orders''
              ((configWithRetryTimes 0)\<lparr>errorOptions := Some \<lparr>retryTimes = Some 7, ignoreError = None\<rparr>\<rparr>)
              [''{}''] ''0'' unavailableWorld))) = 4"
proof -
  have h1: "length [''{}''] = 1" by simp
  have h2: "plainPrepare (message (configWithRetryTimes 0)) (attributes (configWithRetryTimes 0))
              ([''{}''] ! 0) = Inr (''hello'', [])"
    by (simp add: plainPrepare_def configWithRetryTimes_def)
  have h3: "\<forall>i\<le>RETRY_TIMES. isl (pending unavailableWorld i)"
    by (simp add: unavailableWorld_def)
  show ?thesis
    using retry_budget_is_constant [where prepare = plainPrepare
        and config = "configWithRetryTimes 0" and lines = "[''{}'']" and m = "''hello''"
        and a = "[]" and w = unavailableWorld and t = "''orders''" and batchId = "''0''"
        and eo = "Some \<lparr>retryTimes = Some 7, ignoreError = None\<rparr>", OF h1 h2 h3]
    by simp
qed

text \<open>
  Claim C3 says that a failure which is not retryable is recorded at once, with no
  further publish attempt. A publish that fails with an error of another class than
  \<^verbatim>\<open>RetryableError\<close> is nevertheless attempted four times.
\<close>

theorem non_retryable_failure_is_retried_counterexample:
  "\<not> isRetryable permanentError \<and>
   pending rejectingWorld 0 = Inl permanentError \<and>
   publishAttempts (newEvents rejectingWorld
      (snd (getSendSingleMessageFn plainPrepare ''orders'' (configWithRetryTimes 3) [''{}''] ''0''
              rejectingWorld))) = 4"
proof -
  have h1: "length [''{}''] = 1" by simp
  have h2: "plainPrepare (message (configWithRetryTimes 3)) (attributes (configWithRetryTimes 3))
              ([''{}''] ! 0) = Inr (''hello'', [])"
    by (simp add: plainPrepare_def configWithRetryTimes_def)
  have h3: "\<forall>i\<le>RETRY_TIMES. isl (pending rejectingWorld i)"
    by (simp add: rejectingWorld_def)
  have "publishAttempts (newEvents rejectingWorld
      (snd (getSendSingleMessageFn plainPrepare ''orders'' (configWithRetryTimes 3) [''{}''] ''0''
              rejectingWorld))) = RETRY_TIMES + 1"
    using h1 h2 h3 by (simp only: run_all_fail(2))
  then show ?thesis
    by (simp add: RETRY_TIMES_def isRetryable_def permanentError_def rejectingWorld_def)
qed

text \<open>
  Claim C3, amended. The send function does not classify the failure of a publish
  attempt: every failure, retryable or not, is followed by a re-issue as long as fewer
  than \<open>RETRY_TIMES\<close> retries have been made. If the attempts \<open>0, ..., k\<close> fail and
  \<open>k < RETRY_TIMES\<close>, attempt \<open>k + 1\<close> is issued.
\<close>

theorem every_failure_is_retried:
  assumes "length lines = 1"
    and "prepare (message config) (attributes config) (lines ! 0) = Inr (m, a)"
    and "k < RETRY_TIMES"
    and "\<forall>i\<le>k. isl (pending w i)"
  shows "k + 2 \<le> publishAttempts
           (newEvents w (snd (getSendSingleMessageFn prepare t config lines batchId w)))"
proof -
  let ?br = "\<lparr>numberOfLines = 1, result = None, errors = None, failedLines = None\<rparr>"
  let ?w = "snd (sendLoop t m a ?br 0 [] w)"
  have "publishAttempts (trace w) + Suc k + 1 \<le> publishAttempts (trace ?w)"
    using assms(3,4) by (intro sendLoop_reissues) (simp_all add: less_Suc_eq_le)
  moreover obtain n where "trace ?w =
       trace w @ concat (map (attemptEvents t m a (\<lambda>j. pending w (j - 0))) [0..<0 + n])"
    using sendLoop_trace [of 0 t m a ?br "[]" w] by blast
  then have "publishAttempts (trace ?w) = publishAttempts (trace w) + publishAttempts (newEvents w ?w)"
    by (simp add: newEvents_def publishAttempts_append)
  ultimately have "k + 2 \<le> publishAttempts (newEvents w ?w)" by simp
  then show ?thesis using assms(1,2) by (simp only: snd_run_prepared)
qed

theorem every_failure_is_retried_witness:
  "\<not> isRetryable permanentError \<and> pending rejectingWorld 0 = Inl permanentError \<and>
   2 \<le> publishAttempts (newEvents rejectingWorld
      (snd (getSendSingleMessageFn plainPrepare ''orders'' (configWithRetryTimes 3) [''{}''] ''0''
              rejectingWorld)))"
proof -
  have h1: "length [''{}''] = 1" by simp
  have h2: "plainPrepare (message (configWithRetryTimes 3)) (attributes (configWithRetryTimes 3))
              ([''{}''] ! 0) = Inr (''hello'', [])"
    by (simp add: plainPrepare_def configWithRetryTimes_def)
  have h3: "0 < RETRY_TIMES" by (simp add: RETRY_TIMES_def)
  have h4: "\<forall>i\<le>0. isl (pending rejectingWorld i)" by (simp add: rejectingWorld_def)
  show ?thesis
    using every_failure_is_retried [where prepare = plainPrepare
        and config = "configWithRetryTimes 3" and lines = "[''{}'']" and m = "''hello''"
        and a = "[]" and w = rejectingWorld and t = "''orders''" and batchId = "''0''"
        and k = 0, OF h1 h2 h3 h4]
    by (simp add: isRetryable_def permanentError_def rejectingWorld_def)
qed




text \<open>
  Claim C5. Before retry attempt \<open>k\<close> (\<open>k = 1, 2, ...\<close>) the sender waits \<open>k\<close> seconds,
  that is \<open>wait(k * 1000)\<close>, and nothing is waited for before the first attempt: the
  events of one call are exactly the backoff schedule for the number of publish attempts
  the call made, which is at least one and at most \<open>RETRY_TIMES + 1\<close>.
\<close>

theorem backoff_before_each_retry:
  assumes "length lines = 1"
    and "prepare (message config) (attributes config) (lines ! 0) = Inr (m, a)"
  shows "newEvents w (snd (getSendSingleMessageFn prepare t config lines batchId w)) =
           backoffSchedule t m a (pending w)
             (publishAttempts
                (newEvents w (snd (getSendSingleMessageFn prepare t config lines batchId w)))) \<and>
         1 \<le> publishAttempts
                (newEvents w (snd (getSendSingleMessageFn prepare t config lines batchId w))) \<and>
         publishAttempts
                (newEvents w (snd (getSendSingleMessageFn prepare t config lines batchId w)))
           \<le> RETRY_TIMES + 1"
proof -
  from run_schedule [where prepare = prepare and config = config and lines = lines
      and m = m and a = a and t = t and batchId = batchId and w = w, OF assms]
  obtain n where n: "n \<ge> 1" "n \<le> RETRY_TIMES + 1"
    "newEvents w (snd (getSendSingleMessageFn prepare t config lines batchId w)) =
       backoffSchedule t m a (pending w) n"
    by blast
  then show ?thesis by (simp add: publishAttempts_backoffSchedule)
qed

theorem backoff_before_each_retry_witness:
  "newEvents unavailableWorld
     (snd (getSendSingleMessageFn plainPrepare ''orders'' (configWithRetryTimes 3) [''{}''] ''0''
             unavailableWorld)) =
     [Publish ''orders'' ''hello'' [] (Inl transientError),
      Wait 1000, Publish ''orders'' ''hello'' [] (Inl transientError),
      Wait 2000, Publish ''orders'' ''hello'' [] (Inl transientError),
      Wait 3000, Publish ''orders'' ''hello'' [] (Inl transientError)]"
proof -
  let ?evs = "newEvents unavailableWorld
     (snd (getSendSingleMessageFn plainPrepare ''orders'' (configWithRetryTimes 3) [''{}''] ''0''
             unavailableWorld))"
  have h1: "length [''{}''] = 1" by simp
  have h2: "plainPrepare (message (configWithRetryTimes 3)) (attributes (configWithRetryTimes 3))
              ([''{}''] ! 0) = Inr (''hello'', [])"
    by (simp add: plainPrepare_def configWithRetryTimes_def)
  have h3: "\<forall>i\<le>RETRY_TIMES. isl (pending unavailableWorld i)"
    by (simp add: unavailableWorld_def)
  have n: "publishAttempts ?evs = 4"
    using h1 h2 h3 by (simp add: run_all_fail(2) RETRY_TIMES_def)
  have "?evs = backoffSchedule ''orders'' ''hello'' [] (pending unavailableWorld) 4"
    using backoff_before_each_retry [where prepare = plainPrepare
        and config = "configWithRetryTimes 3" and lines = "[''{}'']" and m = "''hello''"
        and a = "[]" and w = unavailableWorld and t = "''orders''" and batchId = "''0''",
        OF h1 h2]
    by (simp only: n)
  then show ?thesis
    by (simp add: backoffSchedule_def attemptEvents_def unavailableWorld_def upt_rec)
qed

text \<open>
  Claim C6. \<open>getSpeedOptions\<close> depends on the config alone. It sets
  \<open>recordsPerRequest\<close> to \<open>1\<close> whatever the config says and whatever the helper does, and
  hands \<open>config.numberOfThreads\<close> and \<open>config.qps\<close> to the helper with the default \<open>1\<close>
  and no cap. With the helper as the specification describes it, each of the two is the
  configured value when that is present and positive, and \<open>1\<close> otherwise.
\<close>

theorem getSpeedOptions_pins_and_defaults:
  "SpeedOptions.recordsPerRequest (getSpeedOptions properValue config) = 1 \<and>
   SpeedOptions.numberOfThreads (getSpeedOptions properValue config)
     = properValue (PubSubMessageConfig.numberOfThreads config) 1 False \<and>
   SpeedOptions.qps (getSpeedOptions properValue config)
     = properValue (PubSubMessageConfig.qps config) 1 False \<and>
   SpeedOptions.numberOfThreads (getSpeedOptions getProperValue config)
     = (case PubSubMessageConfig.numberOfThreads config of
          None \<Rightarrow> 1 | Some n \<Rightarrow> if 0 < n then n else 1) \<and>
   SpeedOptions.qps (getSpeedOptions getProperValue config)
     = (case PubSubMessageConfig.qps config of
          None \<Rightarrow> 1 | Some q \<Rightarrow> if 0 < q then q else 1)"
  by (simp add: getSpeedOptions_def getProperValue_def RECORDS_PER_REQUEST_def
        NUMBER_OF_THREADS_def QUERIES_PER_SECOND_def split: option.splits)

theorem getSpeedOptions_pins_and_defaults_witness:
  "SpeedOptions.recordsPerRequest
     (getSpeedOptions getProperValue
        \<lparr>topic = ''orders'', message = None, attributes = None, recordsPerRequest = Some 10,
         qps = Some 0.5, numberOfThreads = Some (- 2)\<rparr>) = 1 \<and>
   SpeedOptions.numberOfThreads
     (getSpeedOptions getProperValue
        \<lparr>topic = ''orders'', message = None, attributes = None, recordsPerRequest = Some 10,
         qps = Some 0.5, numberOfThreads = Some (- 2)\<rparr>) = 1 \<and>
   SpeedOptions.qps
     (getSpeedOptions getProperValue
        \<lparr>topic = ''orders'', message = None, attributes = None, recordsPerRequest = Some 10,
         qps = Some 0.5, numberOfThreads = Some (- 2)\<rparr>) = 0.5"
  using getSpeedOptions_pins_and_defaults [of getProperValue
      "\<lparr>topic = ''orders'', message = None, attributes = None, recordsPerRequest = Some 10,
        qps = Some 0.5, numberOfThreads = Some (- 2)\<rparr>"]
  by simp

text \<open>
  Claim C7. If the publish succeeds after \<open>k\<close> failed attempts, for any \<open>k\<close> from \<open>0\<close> up
  to the retry budget, the batch result has \<open>result = true\<close> and \<open>numberOfLines = 1\<close>, and
  neither \<open>errors\<close> nor \<open>failedLines\<close> is set: the earlier failures leave no trace in it.
\<close>

theorem success_after_failures:
  assumes "length lines = 1"
    and "prepare (message config) (attributes config) (lines ! 0) = Inr (m, a)"
    and "k \<le> RETRY_TIMES"
    and "\<forall>i<k. isl (pending w i)"
    and "pending w k = Inr messageId"
  shows "fst (getSendSingleMessageFn prepare t config lines batchId w) =
           Inr \<lparr>numberOfLines = 1, result = Some True, errors = None, failedLines = None\<rparr>"
proof -
  let ?br = "\<lparr>numberOfLines = 1, result = None, errors = None, failedLines = None\<rparr>"
  obtain ex w' where run: "sendLoop t m a ?br 0 [] w = (ex, w')" by (cases "sendLoop t m a ?br 0 [] w")
  have "fst (sendLoop t m a ?br 0 [] w) = Return (?br\<lparr>result := Some True\<rparr>)"
    using assms(3-5) by (intro sendLoop_succeeds [of 0 k w messageId]) simp_all
  with run have ex: "ex = Return (?br\<lparr>result := Some True\<rparr>)" by simp
  have "fst (getSendSingleMessageFn prepare t config lines batchId w) = Inr (?br\<lparr>result := Some True\<rparr>)"
    using assms(1,2) by (simp only: run_prepared run ex prod.case loop_exit.case fst_conv)
  then show ?thesis by simp
qed

theorem success_after_failures_witness:
  "isl (pending recoveringWorld 0) \<and> isl (pending recoveringWorld 1) \<and>
   pending recoveringWorld 2 = Inr ''id-3'' \<and>
   fst (getSendSingleMessageFn plainPrepare ''orders'' (configWithRetryTimes 3) [''{}''] ''0''
          recoveringWorld) =
     Inr \<lparr>numberOfLines = 1, result = Some True, errors = None, failedLines = None\<rparr>"
proof -
  have h1: "length [''{}''] = 1" by simp
  have h2: "plainPrepare (message (configWithRetryTimes 3)) (attributes (configWithRetryTimes 3))
              ([''{}''] ! 0) = Inr (''hello'', [])"
    by (simp add: plainPrepare_def configWithRetryTimes_def)
  have h3: "2 \<le> RETRY_TIMES" by (simp add: RETRY_TIMES_def)
  have h4: "\<forall>i<2. isl (pending recoveringWorld i)" by (simp add: recoveringWorld_def)
  have h5: "pending recoveringWorld 2 = Inr ''id-3''" by (simp add: recoveringWorld_def)
  show ?thesis
    using success_after_failures [where prepare = plainPrepare
        and config = "configWithRetryTimes 3" and lines = "[''{}'']" and m = "''hello''"
        and a = "[]" and w = recoveringWorld and t = "''orders''" and batchId = "''0''"
        and k = 2 and messageId = "''id-3''", OF h1 h2 h3 h4 h5] h4 h5
    by simp
qed


text \<open>
  Claim C9. Every batch result the send function returns has \<open>numberOfLines = 1\<close>. If its
  \<open>result\<close> is not \<open>true\<close> then it is \<open>false\<close>, \<open>errors\<close> holds the messages of the failed
  publish attempts of the call in the order of the attempts, one for each attempt, and
  \<open>failedLines\<close> is the input batch, which has one record.
\<close>

theorem returned_batch_result:
  assumes "getSendSingleMessageFn prepare t config lines batchId w = (Inr br, w')"
  shows "numberOfLines br = 1 \<and>
         (result br \<noteq> Some True \<longrightarrow>
            result br = Some False \<and>
            errors br = Some (failureMessages (newEvents w w')) \<and>
            length (failureMessages (newEvents w w')) = publishAttempts (newEvents w w') \<and>
            failedLines br = Some lines \<and> length lines = 1)"
proof -
  let ?br = "\<lparr>numberOfLines = 1, result = None, errors = None, failedLines = None\<rparr>"
  from assms have len: "length lines = 1"
    by (auto simp: getSendSingleMessageFn_def split: if_splits)
  from assms len obtain m a where
    prep: "prepare (message config) (attributes config) (lines ! 0) = Inr (m, a)"
    by (auto simp: getSendSingleMessageFn_def Let_def split: sum.splits)
  obtain ex w'' where run: "sendLoop t m a ?br 0 [] w = (ex, w'')"
    by (cases "sendLoop t m a ?br 0 [] w")
  have whole: "getSendSingleMessageFn prepare t config lines batchId w =
     (case (ex, w'') of
        (Return br, w') \<Rightarrow> (Inr br, w')
      | (Fallthrough rt errs, w') \<Rightarrow>
          (Inr \<lparr>numberOfLines = 1, result = Some False, errors = Some errs,
                failedLines = Some lines\<rparr>, w'))"
    using len prep by (simp only: run_prepared run)
  show ?thesis
  proof (cases ex)
    case (Return b)
    with run have "b = ?br\<lparr>result := Some True\<rparr>"
      using sendLoop_return [of t m a ?br 0 "[]" w b] by simp
    with whole Return assms show ?thesis by auto
  next
    case (Fallthrough r es)
    from sendLoop_fallthrough [OF run [unfolded Fallthrough]]
    obtain evs where evs: "trace w'' = trace w @ evs" "es = [] @ failureMessages evs"
      "publishAttempts evs = length (failureMessages evs)" by blast
    from whole Fallthrough assms have
      "br = \<lparr>numberOfLines = 1, result = Some False, errors = Some es, failedLines = Some lines\<rparr>"
      "w' = w''" by auto
    with evs len show ?thesis by (simp add: newEvents_extend [OF evs(1)])
  qed
qed

theorem returned_batch_result_witness:
  "numberOfLines (projr (fst (getSendSingleMessageFn plainPrepare ''orders'' (configWithRetryTimes 3)
      [''{}''] ''0'' rejectingWorld))) = 1 \<and>
   result (projr (fst (getSendSingleMessageFn plainPrepare ''orders'' (configWithRetryTimes 3)
      [''{}''] ''0'' rejectingWorld))) = Some False \<and>
   errors (projr (fst (getSendSingleMessageFn plainPrepare ''orders'' (configWithRetryTimes 3)
      [''{}''] ''0'' rejectingWorld))) =
     Some [''permission denied'', ''permission denied'', ''permission denied'', ''permission denied''] \<and>
   failedLines (projr (fst (getSendSingleMessageFn plainPrepare ''orders'' (configWithRetryTimes 3)
      [''{}''] ''0'' rejectingWorld))) = Some [''{}'']"
proof -
  let ?run = "getSendSingleMessageFn plainPrepare ''orders'' (configWithRetryTimes 3)
      [''{}''] ''0'' rejectingWorld"
  have h1: "length [''{}''] = 1" by simp
  have h2: "plainPrepare (message (configWithRetryTimes 3)) (attributes (configWithRetryTimes 3))
              ([''{}''] ! 0) = Inr (''hello'', [])"
    by (simp add: plainPrepare_def configWithRetryTimes_def)
  have h3: "\<forall>i\<le>RETRY_TIMES. isl (pending rejectingWorld i)"
    by (simp add: rejectingWorld_def)
  have f: "fst ?run = Inr \<lparr>numberOfLines = 1, result = Some False,
                errors = Some (map (\<lambda>i. error_message (projl (pending rejectingWorld i))) [0..<RETRY_TIMES + 1]),
                failedLines = Some [''{}'']\<rparr>"
    using h1 h2 h3 by (simp only: run_all_fail(1))
  then have r: "?run = (Inr (projr (fst ?run)), snd ?run)"
    by (cases ?run) simp
  have msgs: "failureMessages (newEvents rejectingWorld (snd ?run)) =
     [''permission denied'', ''permission denied'', ''permission denied'', ''permission denied'']"
    using f returned_batch_result [OF r]
    by (simp add: rejectingWorld_def permanentError_def RETRY_TIMES_def upt_rec)
  show ?thesis
    using returned_batch_result [OF r] f by (simp add: msgs)
qed

text \<open>
  Claim C10. A \<open>TaskConfigDao\<close> built without a namespace argument uses the namespace
  \<open>'sentinel'\<close>, one built with a namespace uses that one, and in both cases the base
  constructor receives the collection name \<open>'TaskConfig'\<close> and the data source supplied.
\<close>

theorem TaskConfigDao_defaults:
  "TaskConfigDao super ds None = super ''TaskConfig'' ''sentinel'' ds \<and>
   TaskConfigDao super ds (Some ns) = super ''TaskConfig'' ns ds \<and>
   kind (TaskConfigDao newDataAccessObject ds nsOpt) = ''TaskConfig'' \<and>
   dataSource (TaskConfigDao newDataAccessObject ds nsOpt) = ds \<and>
   namespace (TaskConfigDao newDataAccessObject ds None) = ''sentinel''"
  by (simp add: TaskConfigDao_def newDataAccessObject_def)

end
